theory Spec2Isabelle
  imports Main "HOL-Library.AList" "HOL-Library.Word"
begin

unbundle bit_operations_syntax

section \<open>Python strings\<close>

text \<open>
  A Python \<open>str\<close> is a \<open>string\<close> here. The values the scan handles come from
  octet strings decoded one octet to one character, so a character stands for one octet.
\<close>

text \<open>\<open>s.startswith(p)\<close>.\<close>

fun startswith :: "string \<Rightarrow> string \<Rightarrow> bool" where
  "startswith s [] = True"
| "startswith [] (p # ps) = False"
| "startswith (c # cs) (p # ps) = (c = p \<and> startswith cs ps)"

text \<open>\<open>sub in s\<close> for two strings.\<close>

fun contains :: "string \<Rightarrow> string \<Rightarrow> bool" where
  "contains sub [] = (sub = [])"
| "contains sub (c # cs) = (startswith (c # cs) sub \<or> contains sub cs)"

text \<open>
  \<open>s.replace(old, new)\<close>: every non-overlapping occurrence of \<open>old\<close>, from the left.
  With an empty \<open>old\<close> Python puts \<open>new\<close> before every character and at the end.
\<close>

function replace :: "string \<Rightarrow> string \<Rightarrow> string \<Rightarrow> string" where
  "replace old new [] = (if old = [] then new else [])"
| "replace old new (c # cs) =
     (if old = [] then new @ c # replace old new cs
      else if startswith (c # cs) old
        then new @ replace old new (drop (length old) (c # cs))
      else c # replace old new cs)"
  by pat_completeness auto
termination
  by (relation "measure (\<lambda>(old, new, s). length s)") auto

text \<open>\<open>str(n)\<close> for an integer: decimal digits, a minus sign for a negative one.\<close>

function digits :: "nat \<Rightarrow> string" where
  "digits n =
     (if n < 10 then [''0123456789'' ! n]
      else digits (n div 10) @ [''0123456789'' ! (n mod 10)])"
  by pat_completeness auto
termination
  by (relation "measure id") auto

definition str_int :: "int \<Rightarrow> string" where
  "str_int n = (if n < 0 then CHR ''-'' # digits (nat (- n)) else digits (nat n))"

text \<open>\<open>sep.join(parts)\<close>.\<close>

fun join :: "string \<Rightarrow> string list \<Rightarrow> string" where
  "join sep [] = []"
| "join sep [p] = p"
| "join sep (p # q # ps) = p @ sep @ join sep (q # ps)"

text \<open>\<open>s.lower()\<close> on the ASCII letters (the only letters the MAC text can hold).\<close>

definition lower_char :: "char \<Rightarrow> char" where
  "lower_char c =
     (case map_of (zip ''ABCDEFGHIJKLMNOPQRSTUVWXYZ'' ''abcdefghijklmnopqrstuvwxyz'') c of
        Some l \<Rightarrow> l
      | None \<Rightarrow> c)"

definition lower :: "string \<Rightarrow> string" where
  "lower s = map lower_char s"

section \<open>Exceptions\<close>

text \<open>The exceptions the scan can raise; none of them is caught inside \<open>snmpAudit\<close>
  except \<open>StopIteration\<close> in the two interface walks (lines 314 and 363).\<close>

datatype error =
    IndexError | KeyError | TypeError | ValueError | AttributeError
  | UnboundLocalError | NetmaskValueError | StopIteration

section \<open>Protocol values and responses\<close>

text \<open>
  The value classes the script tests with \<open>isinstance\<close>. \<open>IpAddress\<close> is a subclass of
  \<open>OctetString\<close> of exactly four octets, held as its 32-bit number. \<open>Null\<close> stands for
  the empty-valued markers (no such object, no such instance, end of MIB view).
\<close>

datatype snmp_value = Integer32 int | OctetString string | IpAddress "32 word" | Null

text \<open>A variable binding: the pretty-printed object name and the value.\<close>

type_synonym varBind = "string \<times> snmp_value"

text \<open>The four octets of an address, most significant first.\<close>

definition octets :: "32 word \<Rightarrow> nat list" where
  "octets a =
     [nat (uint a div 2 ^ 24 mod 256), nat (uint a div 2 ^ 16 mod 256),
      nat (uint a div 2 ^ 8 mod 256), nat (uint a mod 256)]"

text \<open>\<open>str(value)\<close>: an octet string decodes octet by character.\<close>

fun str_value :: "snmp_value \<Rightarrow> string" where
  "str_value (Integer32 n) = str_int n"
| "str_value (OctetString s) = s"
| "str_value (IpAddress a) = map char_of (octets a)"
| "str_value Null = []"

text \<open>\<open>isinstance(value, Integer32)\<close> and \<open>isinstance(value, OctetString)\<close>.\<close>

fun isInteger32 :: "snmp_value \<Rightarrow> bool" where
  "isInteger32 (Integer32 n) = True"
| "isInteger32 v = False"

fun isOctetString :: "snmp_value \<Rightarrow> bool" where
  "isOctetString (OctetString s) = True"
| "isOctetString (IpAddress a) = True"
| "isOctetString v = False"

text \<open>
  The tuple every \<open>next(snmpRequest)\<close> returns:
  \<open>errorIndication, errorStatus, errorIndex, varBinds\<close>. An indication is an object or
  \<open>None\<close>; status and index are integers, false when zero.
\<close>

record snmp_response =
  errorIndication :: "string option"
  errorStatus :: int
  errorIndex :: int
  varBinds :: "varBind list"

text \<open>
  A request generator of the library: the answer to the \<open>k\<close>-th call of \<open>next\<close>, or
  \<open>None\<close> where the generator is exhausted and \<open>next\<close> raises \<open>StopIteration\<close>.
\<close>

type_synonym generator = "nat \<Rightarrow> snmp_response option"

text \<open>What one host answers to the five requests of the scan, in the script's order
  (lines 127, 197, 237, 266, 317).\<close>

record device =
  generalInfo :: snmp_response
  vendorInfo :: snmp_response
  macAddresses :: generator
  physicalData :: generator
  logicalData :: generator

section \<open>The two dictionaries\<close>

text \<open>
  The values a host dictionary holds: \<open>None\<close>, a string, an integer, a flag or the
  list of address strings. A dictionary keeps its keys in insertion order, which the
  positional fill of line 180 relies on: it is an association list, read with
  \<open>map_of\<close> and written with \<open>AList.update\<close> (in place for a key that exists, at the end
  for a new one).
\<close>

datatype pyval = PNone | PStr string | PInt int | PBool bool | PList "string list"

type_synonym dict = "(string \<times> pyval) list"

definition dataDictTemplate :: dict where
  "dataDictTemplate =
     [(''Sysname'', PNone), (''Manufacturer'', PNone), (''Model'', PNone), (''FW'', PNone),
      (''S/N'', PNone), (''Location'', PNone), (''Description'', PNone), (''Contact'', PNone),
      (''Comment'', PNone), (''Interfaces Count'', PNone), (''MAC Address'', PNone),
      (''IP Addresses'', PNone), (''PING'', PBool False), (''SNMP'', PBool False)]"

text \<open>
  An entry of \<open>interfaceDict\<close>: a copy of \<open>interfaceDictTemplate\<close>, whose keys are
  fixed. \<open>Type\<close> holds \<open>value.prettyPrint()\<close> of an \<open>Integer32\<close>, represented by the
  integer that the MIB renders.
\<close>

record interface =
  Index :: "int option"
  Name :: "string option"
  Alias :: "string option"
  Type :: "int option"
  MTU :: "int option"
  MAC_Address :: "string option"
  IP_Address :: "32 word option"
  Netmask :: "32 word option"
  Description :: "string option"
  Admin_Status :: bool
  Operation_Status :: bool

definition interfaceDictTemplate :: interface where
  "interfaceDictTemplate =
     \<lparr>Index = None, Name = None, Alias = None, Type = None, MTU = None,
      MAC_Address = None, IP_Address = None, Netmask = None, Description = None,
      Admin_Status = False, Operation_Status = False\<rparr>"

section \<open>Addresses, netmasks and MAC text\<close>

text \<open>\<open>str(IPv4Address(...))\<close>: the dotted quad.\<close>

definition str_IPv4Address :: "32 word \<Rightarrow> string" where
  "str_IPv4Address a = join ''.'' (map (\<lambda>n. str_int (int n)) (octets a))"

text \<open>
  \<open>IPAddress(...).is_netmask()\<close> of netaddr, on the address as a Python integer:
  \<open>int_val = (value ^ max_int) + 1\<close>, a netmask when \<open>int_val & (int_val - 1) == 0\<close>.
\<close>

definition is_netmask :: "32 word \<Rightarrow> bool" where
  "is_netmask a =
     (let int_val = (uint a XOR 4294967295) + 1 in int_val AND (int_val - 1) = 0)"

text \<open>The number of zero bits on the right of a number, at most \<open>bits\<close>
  (\<open>_count_righthand_zero_bits\<close> of the standard library).\<close>

function trailing_zeroes :: "int \<Rightarrow> nat" where
  "trailing_zeroes n = (if n = 0 \<or> odd n then 0 else Suc (trailing_zeroes (n div 2)))"
  by pat_completeness auto
termination
  by (relation "measure (\<lambda>n. nat \<bar>n\<bar>)") auto

definition count_righthand_zero_bits :: "int \<Rightarrow> nat \<Rightarrow> nat" where
  "count_righthand_zero_bits number bits =
     (if number = 0 then bits else min bits (trailing_zeroes number))"

text \<open>
  \<open>_prefix_from_ip_int\<close>: the prefix length of a mask of contiguous high one bits,
  \<open>None\<close> where the library raises \<open>ValueError\<close> (a mix of zeroes and ones).
\<close>

definition prefix_from_ip_int :: "int \<Rightarrow> nat option" where
  "prefix_from_ip_int ip_int =
     (let trailing = count_righthand_zero_bits ip_int 32;
          prefixlen = 32 - trailing;
          leading_ones = drop_bit trailing ip_int;
          all_ones = push_bit prefixlen 1 - 1
      in if leading_ones = all_ones then Some prefixlen else None)"

text \<open>
  \<open>IPv4Network((0, str(mask))).prefixlen\<close> of line 361. The text of the mask is first
  tried as a decimal prefix (it never is one), then parsed as an address: the text
  \<open>None\<close> of an absent mask is no address and raises \<open>NetmaskValueError\<close>; the text of an
  address parses back to that address, which is read as a netmask, else as a host mask.
  The network address is 0, so no host bit is ever set.
\<close>

definition network_prefixlen :: "32 word option \<Rightarrow> error + nat" where
  "network_prefixlen netmask =
     (case netmask of
        None \<Rightarrow> Inl NetmaskValueError
      | Some m \<Rightarrow>
          (case prefix_from_ip_int (uint m) of
             Some p \<Rightarrow> Inr p
           | None \<Rightarrow>
               (case prefix_from_ip_int (uint m XOR 4294967295) of
                  Some p \<Rightarrow> Inr p
                | None \<Rightarrow> Inl NetmaskValueError)))"

text \<open>\<open>str(x)\<close> of an address field of an interface entry: \<open>None\<close> prints as such.\<close>

definition str_address :: "32 word option \<Rightarrow> string" where
  "str_address x = (case x of None \<Rightarrow> ''None'' | Some a \<Rightarrow> str_IPv4Address a)"

text \<open>
  \<open>bytes(value)\<close>: the octets of an octet string; for an integer Python builds that many
  zero octets and refuses a negative count.
\<close>

fun bytes_value :: "snmp_value \<Rightarrow> error + nat list" where
  "bytes_value (OctetString s) = Inr (map of_char s)"
| "bytes_value (IpAddress a) = Inr (octets a)"
| "bytes_value (Integer32 n) = (if n < 0 then Inl ValueError else Inr (replicate (nat n) 0))"
| "bytes_value Null = Inr []"

text \<open>Two uppercase hexadecimal digits of an octet.\<close>

definition hex2 :: "nat \<Rightarrow> string" where
  "hex2 b = [''0123456789ABCDEF'' ! (b div 16 mod 16), ''0123456789ABCDEF'' ! (b mod 16)]"

text \<open>
  \<open>str(macaddress.MAC(bs))\<close>: exactly six octets or \<open>ValueError\<close>; printed as
  uppercase pairs separated by hyphens.
\<close>

definition str_MAC :: "nat list \<Rightarrow> error + string" where
  "str_MAC bs = (if length bs = 6 then Inr (join ''-'' (map hex2 bs)) else Inl ValueError)"

text \<open>Line 259: \<open>str(macaddress.MAC(bytes(value))).replace("-", ":").lower()\<close>.\<close>

definition macText :: "snmp_value \<Rightarrow> error + string" where
  "macText v =
     (case bytes_value v of
        Inl e \<Rightarrow> Inl e
      | Inr bs \<Rightarrow>
          (case str_MAC bs of
             Inl e \<Rightarrow> Inl e
           | Inr s \<Rightarrow> Inr (lower (replace ''-'' '':'' s))))"

section \<open>The state of one scan\<close>

text \<open>One label for each protocol exchange the scan asks the library for.\<close>

datatype exchange = GetGeneral | GetVendor | NextMac | NextPhysical | NextLogical

text \<open>The local variable \<open>intNumber\<close>: not yet assigned, \<open>None\<close>, or an integer.\<close>

datatype intvar = Unbound | PyNone | PyInt int

text \<open>
  The variables of \<open>snmpAudit\<close> that its steps read and write: the host's entry of
  \<open>snmpDataDict\<close>, \<open>interfaceDict\<close>, \<open>intNumber\<close>, \<open>snmpIterMaxCount\<close>, and the
  exchanges asked for so far. An exception leaves \<open>snmpAudit\<close> with its kind and the
  exchanges made until then.
\<close>

record scan_state =
  snmpDataDict :: dict
  interfaceDict :: "(int \<times> interface) list"
  intNumber :: intvar
  snmpIterMaxCount :: int
  exchanges :: "exchange list"

type_synonym result = "(error \<times> exchange list) + scan_state"

definition raising :: "error \<Rightarrow> scan_state \<Rightarrow> result" where
  "raising e st = Inl (e, exchanges st)"

definition sent :: "exchange \<Rightarrow> scan_state \<Rightarrow> scan_state" where
  "sent x st = st\<lparr>exchanges := exchanges st @ [x]\<rparr>"

definition andThen :: "result \<Rightarrow> (scan_state \<Rightarrow> result) \<Rightarrow> result" where
  "andThen r f = (case r of Inl e \<Rightarrow> Inl e | Inr st \<Rightarrow> f st)"

text \<open>A \<open>for\<close> loop over a list whose body may raise.\<close>

fun forEach :: "('a \<Rightarrow> scan_state \<Rightarrow> result) \<Rightarrow> 'a list \<Rightarrow> scan_state \<Rightarrow> result" where
  "forEach body [] st = Inr st"
| "forEach body (x # xs) st =
     (case body x st of Inl e \<Rightarrow> Inl e | Inr st' \<Rightarrow> forEach body xs st')"

text \<open>Python's \<open>xs[i]\<close> is defined for \<open>-len \<le> i < len\<close>.\<close>

definition index_ok :: "'a list \<Rightarrow> int \<Rightarrow> bool" where
  "index_ok xs i =
     (let n = int (length xs); j = (if i < 0 then n + i else i) in 0 \<le> j \<and> j < n)"

text \<open>
  The \<open>elif errorStatus\<close> branches (lines 160, 214, 252, 288, 339) print
  \<open>errorIndex and varBinds[int(errorIndex)-1][0] or "?"\<close>: the list is indexed only for
  a non-zero index.
\<close>

definition printErrorStatus :: "snmp_response \<Rightarrow> scan_state \<Rightarrow> result" where
  "printErrorStatus r st =
     (if errorIndex r = 0 then Inr st
      else if index_ok (varBinds r) (errorIndex r - 1) then Inr st
      else raising IndexError st)"

section \<open>General information (lines 127 to 191)\<close>

text \<open>Lines 169 to 172: the four replacements on \<open>str(value)\<close>.\<close>

definition sanitize :: "string \<Rightarrow> snmp_value \<Rightarrow> string" where
  "sanitize valuesDelimeter v =
     replace valuesDelimeter '' ''
       (replace [CHR 0x0D] '' ''
         (replace [CHR 0x0A] '' ''
           (replace [CHR 0x0A, CHR 0x0D] '' '' (str_value v))))"

text \<open>
  Lines 178 to 187: the keys of the dictionary in order, the index \<open>i\<close> into
  \<open>varBindValues\<close> read before it is compared with \<open>valuesCount - 1\<close>.
\<close>

fun fillValues :: "string list \<Rightarrow> string list \<Rightarrow> nat \<Rightarrow> dict \<Rightarrow> error + dict" where
  "fillValues [] varBindValues i dd = Inr dd"
| "fillValues (key # keys) varBindValues i dd =
     (if i < length varBindValues then
        (let v = varBindValues ! i;
             dd' = (if 0 < length v then AList.update key (PStr v) dd else dd)
         in if int i < int (length varBindValues) - 1
            then fillValues keys varBindValues (i + 1) dd'
            else Inr dd')
      else Inl IndexError)"

text \<open>
  Line 189: the interface count when \<open>isinstance(count, int)\<close> (a flag is an \<open>int\<close> in
  Python), else \<open>scriptArgs.snmpIterMaxCount\<close>.
\<close>

fun iterationLimit :: "pyval \<Rightarrow> int \<Rightarrow> int" where
  "iterationLimit (PInt n) scriptArgsIterMaxCount = n"
| "iterationLimit (PBool b) scriptArgsIterMaxCount = (if b then 1 else 0)"
| "iterationLimit v scriptArgsIterMaxCount = scriptArgsIterMaxCount"

definition generalInfoStage :: "string \<Rightarrow> int \<Rightarrow> device \<Rightarrow> scan_state \<Rightarrow> result" where
  "generalInfoStage valuesDelimeter scriptArgsIterMaxCount dev st0 =
     (let r = generalInfo dev; st = sent GetGeneral st0 in
      if errorIndication r \<noteq> None then Inr st
      else if errorStatus r \<noteq> 0 then printErrorStatus r st
      else
        (case fillValues (map fst (snmpDataDict st))
                (map (\<lambda>vb. sanitize valuesDelimeter (snd vb)) (varBinds r)) 0 (snmpDataDict st) of
           Inl e \<Rightarrow> raising e st
         | Inr dd \<Rightarrow>
             (case map_of dd ''Interfaces Count'' of
                None \<Rightarrow> raising KeyError st
              | Some c \<Rightarrow>
                  Inr (st\<lparr>snmpDataDict := AList.update ''SNMP'' (PBool True) dd,
                          snmpIterMaxCount := iterationLimit c scriptArgsIterMaxCount\<rparr>))))"

section \<open>Vendor information (lines 192 to 232)\<close>

text \<open>\<open>sub in x\<close> for a dictionary value: a substring test on a string, membership in
  a list, \<open>TypeError\<close> on anything else (\<open>None\<close> is not iterable).\<close>

fun py_in :: "string \<Rightarrow> pyval \<Rightarrow> error + bool" where
  "py_in sub (PStr s) = Inr (contains sub s)"
| "py_in sub (PList l) = Inr (List.member l sub)"
| "py_in sub v = Inl TypeError"

text \<open>Lines 194 and 196; \<open>or\<close> reads the firmware only when the comment has no match.\<close>

definition isFortiGate :: "dict \<Rightarrow> error + bool" where
  "isFortiGate dd =
     (case map_of dd ''Manufacturer'' of
        None \<Rightarrow> Inl KeyError
      | Some m \<Rightarrow>
          if m = PStr ''Fortinet'' then
            (case map_of dd ''Comment'' of
               None \<Rightarrow> Inl KeyError
             | Some c \<Rightarrow>
                 (case py_in ''FortiGate'' c of
                    Inl e \<Rightarrow> Inl e
                  | Inr True \<Rightarrow> Inr True
                  | Inr False \<Rightarrow>
                      (case map_of dd ''FW'' of
                         None \<Rightarrow> Inl KeyError
                       | Some f \<Rightarrow> py_in ''FortiGate'' f)))
          else Inr False)"

text \<open>Lines 228 to 232: \<open>keysDictionary = {0 : "FW", 1 : "S/N"}\<close>.\<close>

fun refill :: "(nat \<times> string) list \<Rightarrow> string list \<Rightarrow> dict \<Rightarrow> error + dict" where
  "refill [] varBindValues dd = Inr dd"
| "refill ((arrayKey, dictKey) # rest) varBindValues dd =
     (if arrayKey < length varBindValues then
        (let v = varBindValues ! arrayKey
         in refill rest varBindValues
              (if 0 < length v then AList.update dictKey (PStr v) dd else dd))
      else Inl IndexError)"

definition vendorInfoStage :: "device \<Rightarrow> scan_state \<Rightarrow> result" where
  "vendorInfoStage dev st =
     (case isFortiGate (snmpDataDict st) of
        Inl e \<Rightarrow> raising e st
      | Inr False \<Rightarrow> Inr st
      | Inr True \<Rightarrow>
          (let r = vendorInfo dev; st1 = sent GetVendor st in
           if errorIndication r \<noteq> None then Inr st1
           else if errorStatus r \<noteq> 0 then printErrorStatus r st1
           else
             (case refill [(0, ''FW''), (1, ''S/N'')]
                     (map (\<lambda>vb. replace [CHR 0x0A] '' '' (str_value (snd vb))) (varBinds r))
                     (snmpDataDict st1) of
                Inl e \<Rightarrow> raising e st1
              | Inr dd \<Rightarrow> Inr (st1\<lparr>snmpDataDict := dd\<rparr>))))"

section \<open>MAC address (lines 233 to 264)\<close>

definition macVarBind :: "varBind \<Rightarrow> scan_state \<Rightarrow> result" where
  "macVarBind vb st =
     (case macText (snd vb) of
        Inl e \<Rightarrow> raising e st
      | Inr s \<Rightarrow>
          Inr (st\<lparr>snmpDataDict := AList.update ''MAC Address'' (PStr s) (snmpDataDict st)\<rparr>))"

text \<open>One call of \<open>next\<close> outside any \<open>try\<close> (line 247).\<close>

definition macAddressStage :: "device \<Rightarrow> scan_state \<Rightarrow> result" where
  "macAddressStage dev st0 =
     (let st = sent NextMac st0 in
      case macAddresses dev 0 of
        None \<Rightarrow> raising StopIteration st
      | Some r \<Rightarrow>
          if errorIndication r \<noteq> None then Inr st
          else if errorStatus r \<noteq> 0 then printErrorStatus r st
          else
            andThen (forEach macVarBind (varBinds r) st)
              (\<lambda>st'. Inr (st'\<lparr>snmpDataDict :=
                              AList.update ''SNMP'' (PBool True) (snmpDataDict st')\<rparr>)))"

section \<open>Interface entries\<close>

text \<open>
  Lines 298 to 301 and 348 to 351: \<open>intNumber = int(value)\<close>, and a copy of the template
  with its index set when the key is not in \<open>interfaceDict\<close> yet.
\<close>

definition selectInterface :: "int \<Rightarrow> scan_state \<Rightarrow> scan_state" where
  "selectInterface n st =
     st\<lparr>intNumber := PyInt n,
        interfaceDict :=
          (case map_of (interfaceDict st) n of
             None \<Rightarrow> AList.update n (interfaceDictTemplate\<lparr>Index := Some n\<rparr>) (interfaceDict st)
           | Some r \<Rightarrow> interfaceDict st)\<rparr>"

text \<open>
  \<open>interfaceDict[intNumber]\<close>: \<open>UnboundLocalError\<close> before any assignment of
  \<open>intNumber\<close>, \<open>KeyError\<close> for \<open>None\<close> or an integer that is no key.
\<close>

definition currentInterface :: "scan_state \<Rightarrow> error + (int \<times> interface)" where
  "currentInterface st =
     (case intNumber st of
        Unbound \<Rightarrow> Inl UnboundLocalError
      | PyNone \<Rightarrow> Inl KeyError
      | PyInt n \<Rightarrow>
          (case map_of (interfaceDict st) n of
             None \<Rightarrow> Inl KeyError
           | Some r \<Rightarrow> Inr (n, r)))"

text \<open>\<open>interfaceDict[intNumber][field] = ...\<close>, the field given as a record update.\<close>

definition storeField :: "(interface \<Rightarrow> interface) \<Rightarrow> scan_state \<Rightarrow> result" where
  "storeField f st =
     (case currentInterface st of
        Inl e \<Rightarrow> raising e st
      | Inr (n, r) \<Rightarrow> Inr (st\<lparr>interfaceDict := AList.update n (f r) (interfaceDict st)\<rparr>))"

section \<open>Physical data of the interfaces (lines 265 to 315)\<close>

text \<open>The three independent \<open>if\<close> statements of lines 297, 305 and 308.\<close>

definition physicalVarBind :: "varBind \<Rightarrow> scan_state \<Rightarrow> result" where
  "physicalVarBind vb st =
     (let name = fst vb; v = snd vb;
          st1 = (case v of
                   Integer32 n \<Rightarrow> if contains ''ifIndex'' name then selectInterface n st else st
                 | _ \<Rightarrow> st)
      in andThen
           (if isOctetString v \<and> contains ''ifDescr'' name \<and> 0 < length (str_value v)
            then storeField (\<lambda>r. r\<lparr>Description := Some (str_value v)\<rparr>) st1
            else Inr st1)
           (\<lambda>st2. case v of
                     Integer32 n \<Rightarrow>
                       if contains ''ifType'' name
                       then storeField (\<lambda>r. r\<lparr>Type := Some n\<rparr>) st2
                       else Inr st2
                   | _ \<Rightarrow> Inr st2))"

text \<open>The body of the \<open>try\<close> of lines 283 to 312 once \<open>next\<close> has returned \<open>r\<close>.\<close>

definition physicalRow :: "snmp_response \<Rightarrow> scan_state \<Rightarrow> result" where
  "physicalRow r st =
     (if errorIndication r \<noteq> None then Inr st
      else if errorStatus r \<noteq> 0 then printErrorStatus r st
      else forEach physicalVarBind (varBinds r) (st\<lparr>intNumber := PyNone\<rparr>))"

text \<open>
  The loop of lines 280 to 315: \<open>snmpIterCount\<close> counts the calls of \<open>next\<close> that
  returned; \<open>StopIteration\<close> breaks the loop.
\<close>

function physicalWalk :: "generator \<Rightarrow> int \<Rightarrow> nat \<Rightarrow> scan_state \<Rightarrow> result" where
  "physicalWalk g iterMaxCount snmpIterCount st =
     (if int snmpIterCount < iterMaxCount then
        (case g snmpIterCount of
           None \<Rightarrow> Inr (sent NextPhysical st)
         | Some r \<Rightarrow>
             (case physicalRow r (sent NextPhysical st) of
                Inl e \<Rightarrow> Inl e
              | Inr st' \<Rightarrow> physicalWalk g iterMaxCount (Suc snmpIterCount) st'))
      else Inr st)"
  by pat_completeness auto
termination
  by (relation "measure (\<lambda>(g, iterMaxCount, snmpIterCount, st). nat (iterMaxCount - int snmpIterCount))")
    auto

section \<open>Logical data of the interfaces (lines 316 to 364)\<close>

text \<open>Lines 347 to 356: an integer selects the entry, an address is filed as netmask or
  as IP address by its bit pattern.\<close>

definition logicalVarBind :: "varBind \<Rightarrow> scan_state \<Rightarrow> result" where
  "logicalVarBind vb st =
     (case snd vb of
        Integer32 n \<Rightarrow> Inr (selectInterface n st)
      | IpAddress a \<Rightarrow>
          if is_netmask a then storeField (\<lambda>r. r\<lparr>Netmask := Some a\<rparr>) st
          else storeField (\<lambda>r. r\<lparr>IP_Address := Some a\<rparr>) st
      | _ \<Rightarrow> Inr st)"

text \<open>
  Line 361. The method \<open>append\<close> is looked up first (\<open>AttributeError\<close> unless the value
  is a list), then the entry of \<open>intNumber\<close> is read and the prefix length computed.
\<close>

definition appendAddress :: "scan_state \<Rightarrow> result" where
  "appendAddress st =
     (case map_of (snmpDataDict st) ''IP Addresses'' of
        None \<Rightarrow> raising KeyError st
      | Some (PList l) \<Rightarrow>
          (case currentInterface st of
             Inl e \<Rightarrow> raising e st
           | Inr (n, r) \<Rightarrow>
               (case network_prefixlen (Netmask r) of
                  Inl e \<Rightarrow> raising e st
                | Inr p \<Rightarrow>
                    Inr (st\<lparr>snmpDataDict :=
                            AList.update ''IP Addresses''
                              (PList (l @ [str_address (IP_Address r) @ ''/'' @ str_int (int p)]))
                              (snmpDataDict st)\<rparr>)))
      | Some v \<Rightarrow> raising AttributeError st)"

definition logicalRow :: "snmp_response \<Rightarrow> scan_state \<Rightarrow> result" where
  "logicalRow r st =
     (if errorIndication r \<noteq> None then Inr st
      else if errorStatus r \<noteq> 0 then printErrorStatus r st
      else andThen (forEach logicalVarBind (varBinds r) st) appendAddress)"

function logicalWalk :: "generator \<Rightarrow> int \<Rightarrow> nat \<Rightarrow> scan_state \<Rightarrow> result" where
  "logicalWalk g iterMaxCount snmpIterCount st =
     (if int snmpIterCount < iterMaxCount then
        (case g snmpIterCount of
           None \<Rightarrow> Inr (sent NextLogical st)
         | Some r \<Rightarrow>
             (case logicalRow r (sent NextLogical st) of
                Inl e \<Rightarrow> Inl e
              | Inr st' \<Rightarrow> logicalWalk g iterMaxCount (Suc snmpIterCount) st'))
      else Inr st)"
  by pat_completeness auto
termination
  by (relation "measure (\<lambda>(g, iterMaxCount, snmpIterCount, st). nat (iterMaxCount - int snmpIterCount))")
    auto

section \<open>The whole scan of one host\<close>

text \<open>\<open>len(x)\<close> of a dictionary value.\<close>

fun py_len :: "pyval \<Rightarrow> error + nat" where
  "py_len (PStr s) = Inr (length s)"
| "py_len (PList l) = Inr (length l)"
| "py_len v = Inl TypeError"

text \<open>Lines 374 to 378.\<close>

definition finalize :: "scan_state \<Rightarrow> result" where
  "finalize st =
     (case map_of (snmpDataDict st) ''IP Addresses'' of
        None \<Rightarrow> raising KeyError st
      | Some v \<Rightarrow>
          (case py_len v of
             Inl e \<Rightarrow> raising e st
           | Inr n \<Rightarrow>
               if n = 0
               then Inr (st\<lparr>snmpDataDict := AList.update ''IP Addresses'' PNone (snmpDataDict st)\<rparr>)
               else Inr (st\<lparr>snmpDataDict := AList.update ''SNMP'' (PBool True) (snmpDataDict st)\<rparr>)))"

text \<open>Lines 114 to 116 and 235: the copy of the template, the empty address list, the
  ping flag, no interface yet.\<close>

definition initialState :: "bool \<Rightarrow> dict \<Rightarrow> int \<Rightarrow> scan_state" where
  "initialState pingStatus dataDict iterMaxCount =
     \<lparr>snmpDataDict =
        AList.update ''PING'' (PBool pingStatus) (AList.update ''IP Addresses'' (PList []) dataDict),
      interfaceDict = [], intNumber = Unbound, snmpIterMaxCount = iterMaxCount, exchanges = []\<rparr>"

text \<open>
  \<open>snmpAudit\<close> (lines 112 to 379), without the credentials, which only reach the
  library. Its arguments here: the ping flag, the template, the delimiter, the parameter
  \<open>snmpIterMaxCount\<close>, the global \<open>scriptArgs.snmpIterMaxCount\<close> that line 189 reads,
  and the host's answers. It returns the host's dictionary; the interface dictionary is
  what line 372 prints.
\<close>

definition snmpAudit ::
  "bool \<Rightarrow> dict \<Rightarrow> string \<Rightarrow> int \<Rightarrow> int \<Rightarrow> device
     \<Rightarrow> (error \<times> exchange list) + (dict \<times> (int \<times> interface) list)" where
  "snmpAudit pingStatus dataDict valuesDelimeter iterMaxCount scriptArgsIterMaxCount dev =
     (case
        andThen
          (andThen
            (andThen
              (andThen
                (andThen
                  (generalInfoStage valuesDelimeter scriptArgsIterMaxCount dev
                     (initialState pingStatus dataDict iterMaxCount))
                  (vendorInfoStage dev))
                (macAddressStage dev))
              (\<lambda>st. physicalWalk (physicalData dev) (snmpIterMaxCount st) 0 st))
            (\<lambda>st. logicalWalk (logicalData dev) (snmpIterMaxCount st) 0 st))
          finalize
      of Inl e \<Rightarrow> Inl e
       | Inr st \<Rightarrow> Inr (snmpDataDict st, interfaceDict st))"

section \<open>Notions the properties are stated with\<close>

text \<open>The exchanges made by a step, whether it returned or raised.\<close>

definition log_of :: "result \<Rightarrow> exchange list" where
  "log_of r = (case r of Inl (e, l) \<Rightarrow> l | Inr st \<Rightarrow> exchanges st)"

text \<open>
  The rendering the specification asks of a MAC address: the octets as lowercase
  hexadecimal pairs, separated by colons.
\<close>

definition lowercaseColonHex :: "nat list \<Rightarrow> string" where
  "lowercaseColonHex bs =
     join '':''
       (map (\<lambda>b. [''0123456789abcdef'' ! (b div 16 mod 16), ''0123456789abcdef'' ! (b mod 16)]) bs)"

text \<open>The netmask whose bit pattern is \<open>p\<close> ones followed by zeroes.\<close>

definition maskOfPrefix :: "nat \<Rightarrow> 32 word" where
  "maskOfPrefix p = word_of_int (2 ^ 32 - 2 ^ (32 - p))"

text \<open>A response without error indication and with status zero: the \<open>else\<close> branch.\<close>

definition succeeded :: "snmp_response \<Rightarrow> bool" where
  "succeeded r = (errorIndication r = None \<and> errorStatus r = 0)"





text \<open>The value of \<open>snmpIterMaxCount\<close> with which both walks run: the one the general
  step leaves (no later step assigns it).\<close>

definition effectiveBudget :: "bool \<Rightarrow> dict \<Rightarrow> string \<Rightarrow> int \<Rightarrow> int \<Rightarrow> device \<Rightarrow> int" where
  "effectiveBudget pingStatus dataDict valuesDelimeter iterMaxCount scriptArgsIterMaxCount dev =
     (case generalInfoStage valuesDelimeter scriptArgsIterMaxCount dev
             (initialState pingStatus dataDict iterMaxCount) of
        Inl e \<Rightarrow> iterMaxCount
      | Inr st \<Rightarrow> snmpIterMaxCount st)"


section \<open>Concrete hosts\<close>

text \<open>A generator that returns the given responses and is then exhausted.\<close>

definition rows :: "snmp_response list \<Rightarrow> generator" where
  "rows rs = (\<lambda>k. if k < length rs then Some (rs ! k) else None)"

definition answer :: "varBind list \<Rightarrow> snmp_response" where
  "answer vbs = \<lparr>errorIndication = None, errorStatus = 0, errorIndex = 0, varBinds = vbs\<rparr>"

definition noAnswer :: snmp_response where
  "noAnswer =
     \<lparr>errorIndication = Some ''No SNMP response received before timeout'',
      errorStatus = 0, errorIndex = 0, varBinds = []\<rparr>"

text \<open>An answer to the ten identifiers of the general request, in their order, with the
  manufacturer, firmware, comment and interface count as given.\<close>

definition generalAnswer :: "string \<Rightarrow> string \<Rightarrow> string \<Rightarrow> int \<Rightarrow> snmp_response" where
  "generalAnswer manufacturer firmware comment ifNumber =
     answer
       [(''SNMPv2-MIB::sysName.0'', OctetString ''gw1''),
        (''ENTITY-MIB::entPhysicalMfgName.1'', OctetString manufacturer),
        (''ENTITY-MIB::entPhysicalModelName.1'', OctetString ''M60''),
        (''ENTITY-MIB::entPhysicalSoftwareRev.1'', OctetString firmware),
        (''ENTITY-MIB::entPhysicalSerialNum.1'', OctetString ''S0001''),
        (''SNMPv2-MIB::sysLocation.0'', OctetString ''lab''),
        (''SNMPv2-MIB::sysDescr.0'', OctetString ''gateway''),
        (''SNMPv2-MIB::sysContact.0'', OctetString ''noc''),
        (''ENTITY-MIB::entLogicalDescr.1'', OctetString comment),
        (''IF-MIB::ifNumber.0'', Integer32 ifNumber)]"

definition physicalAnswer :: "int \<Rightarrow> string \<Rightarrow> snmp_response" where
  "physicalAnswer n descr =
     answer [(''IF-MIB::ifIndex'', Integer32 n), (''IF-MIB::ifDescr'', OctetString descr),
             (''IF-MIB::ifType'', Integer32 6)]"

definition logicalAnswer :: "int \<Rightarrow> 32 word \<Rightarrow> snmp_value \<Rightarrow> snmp_response" where
  "logicalAnswer n a netmask =
     answer [(''IP-MIB::ipAdEntIfIndex'', Integer32 n), (''IP-MIB::ipAdEntAddr'', IpAddress a),
             (''IP-MIB::ipAdEntNetMask'', netmask)]"

text \<open>A host that answers nothing at all.\<close>

definition silentHost :: device where
  "silentHost =
     \<lparr>generalInfo = noAnswer, vendorInfo = noAnswer, macAddresses = rows [noAnswer],
      physicalData = rows [noAnswer], logicalData = rows [noAnswer]\<rparr>"



section \<open>Evaluation of the scan on concrete hosts\<close>

lemmas scan_defs =
  snmpAudit_def initialState_def generalInfoStage_def vendorInfoStage_def macAddressStage_def
  finalize_def physicalRow_def logicalRow_def physicalVarBind_def logicalVarBind_def
  appendAddress_def storeField_def currentInterface_def selectInterface_def macVarBind_def
  macText_def str_MAC_def hex2_def sanitize_def isFortiGate_def printErrorStatus_def
  index_ok_def andThen_def sent_def raising_def dataDictTemplate_def
  interfaceDictTemplate_def network_prefixlen_def prefix_from_ip_int_def
  count_righthand_zero_bits_def is_netmask_def str_address_def str_IPv4Address_def
  octets_def str_int_def lower_def lower_char_def

text \<open>
  C1. The scan of one host is claimed never to raise, whichever fields are absent. It
  does raise. A host whose manufacturer is Fortinet and whose comment comes back empty
  leaves the comment \<open>None\<close>, and \<open>"FortiGate" in None\<close> of line 196 is a \<open>TypeError\<close>
  after the one general request. A host whose address table gives an index and an
  address but no netmask makes line 361 build a network from the text \<open>None\<close>, a
  \<open>NetmaskValueError\<close> inside the logical walk, which catches \<open>StopIteration\<close> only.
\<close>

theorem snmpAudit_raises:
  "snmpAudit True dataDictTemplate '';'' 256 256
     (silentHost\<lparr>generalInfo := generalAnswer ''Fortinet'' ''v6.4.9'' '''' 2\<rparr>)
   = Inl (TypeError, [GetGeneral])
   \<and> snmpAudit True dataDictTemplate '';'' 256 256
       (silentHost\<lparr>logicalData := rows [logicalAnswer 1 0xC000020A Null]\<rparr>)
     = Inl (NetmaskValueError,
            [GetGeneral, NextMac, NextPhysical, NextPhysical, NextLogical])"
  by (simp add: scan_defs silentHost_def rows_def answer_def noAnswer_def generalAnswer_def logicalAnswer_def)

text \<open>
  C2. The flag \<open>SNMP\<close> is claimed true exactly when some exchange, scalar or walked,
  gave a usable value. The physical walk never sets it (lines 280 to 315 have no
  counterpart of lines 264 and 378): when only that walk is answered, the scan returns
  an interface entry with its description and type, and the flag is still false.
\<close>

theorem physical_walk_leaves_flag_false:
  "snmpAudit True dataDictTemplate '';'' 256 256
     (silentHost\<lparr>physicalData := rows [physicalAnswer 1 ''eth0'']\<rparr>)
   = Inr (AList.update ''IP Addresses'' PNone
            (AList.update ''PING'' (PBool True) dataDictTemplate),
          [(1, interfaceDictTemplate
                 \<lparr>Index := Some 1, Description := Some ''eth0'', Type := Some 6\<rparr>)])
   \<and> map_of (AList.update ''IP Addresses'' PNone
               (AList.update ''PING'' (PBool True) dataDictTemplate)) ''SNMP''
     = Some (PBool False)"
  by (simp add: scan_defs silentHost_def rows_def answer_def noAnswer_def physicalAnswer_def)

text \<open>
  C3. A declared interface count is claimed to replace the walk budget. Line 173 stores
  every value as a string, so the test \<open>isinstance(..., int)\<close> of line 189 fails and the
  budget is \<open>scriptArgs.snmpIterMaxCount\<close>: a host that declares 2 interfaces is walked
  with the budget 256.
\<close>

theorem declared_count_is_not_the_budget:
  "generalInfoStage '';'' 256
     (silentHost\<lparr>generalInfo := generalAnswer ''Cisco'' ''15.2'' ''router'' 2\<rparr>)
     (initialState True dataDictTemplate 256)
   = Inr ((initialState True dataDictTemplate 256)
       \<lparr>snmpDataDict :=
          [(''Sysname'', PStr ''gw1''), (''Manufacturer'', PStr ''Cisco''),
           (''Model'', PStr ''M60''), (''FW'', PStr ''15.2''), (''S/N'', PStr ''S0001''),
           (''Location'', PStr ''lab''), (''Description'', PStr ''gateway''),
           (''Contact'', PStr ''noc''), (''Comment'', PStr ''router''),
           (''Interfaces Count'', PStr ''2''), (''MAC Address'', PNone),
           (''IP Addresses'', PList []), (''PING'', PBool True), (''SNMP'', PBool True)],
        snmpIterMaxCount := 256, exchanges := [GetGeneral]\<rparr>)
   \<and> effectiveBudget True dataDictTemplate '';'' 256 256
       (silentHost\<lparr>generalInfo := generalAnswer ''Cisco'' ''15.2'' ''router'' 2\<rparr>)
     = 256"
  by (simp add: scan_defs effectiveBudget_def silentHost_def rows_def answer_def noAnswer_def generalAnswer_def)

text \<open>
  C6. A response with fewer values than identifiers is claimed to fill the first fields
  and to be no failure. Line 181 reads \<open>varBindValues[i]\<close> before line 184 compares \<open>i\<close>
  with the number of values, so a response without any value raises \<open>IndexError\<close>.
\<close>

theorem empty_response_raises:
  "snmpAudit True dataDictTemplate '';'' 256 256 (silentHost\<lparr>generalInfo := answer []\<rparr>)
   = Inl (IndexError, [GetGeneral])"
  by (simp add: scan_defs silentHost_def rows_def answer_def noAnswer_def)

text \<open>
  C7. Carriage returns, line feeds and the delimiter are claimed to be replaced in the
  values of every scalar fetch, the vendor fetch included. Line 223 of the vendor fetch
  replaces the line feed only: with the delimiter \<open>;\<close>, a firmware text holding a
  semicolon and a carriage return is stored unchanged.
\<close>

theorem vendor_value_keeps_delimiter:
  "snmpAudit True dataDictTemplate '';'' 256 256
     (silentHost
        \<lparr>generalInfo := generalAnswer ''Fortinet'' ''v6'' ''FortiGate-60E'' 2,
         vendorInfo :=
           answer [(''fgSysVersion'', OctetString (''v7.0.1;build0157'' @ [CHR 0x0D])),
                   (''fnSysSerial'', OctetString ''FGT60E0000000001'')]\<rparr>)
   = Inr ([(''Sysname'', PStr ''gw1''), (''Manufacturer'', PStr ''Fortinet''),
           (''Model'', PStr ''M60''), (''FW'', PStr (''v7.0.1;build0157'' @ [CHR 0x0D])),
           (''S/N'', PStr ''FGT60E0000000001''), (''Location'', PStr ''lab''),
           (''Description'', PStr ''gateway''), (''Contact'', PStr ''noc''),
           (''Comment'', PStr ''FortiGate-60E''), (''Interfaces Count'', PStr ''2''),
           (''MAC Address'', PNone), (''IP Addresses'', PNone),
           (''PING'', PBool True), (''SNMP'', PBool True)],
          [])"
  by (simp add: scan_defs silentHost_def rows_def answer_def noAnswer_def generalAnswer_def)

text \<open>
  C8. A Fortinet host whose comment or firmware contains \<open>FortiGate\<close> is claimed to get
  exactly one vendor fetch. When the comment is absent and the firmware contains
  \<open>FortiGate\<close>, line 196 raises \<open>TypeError\<close> on the comment before the firmware is
  read: the only exchange made is the general one, and no record is returned.
\<close>

theorem fortigate_firmware_without_comment:
  "snmpAudit True dataDictTemplate '';'' 256 256
     (silentHost\<lparr>generalInfo := generalAnswer ''Fortinet'' ''FortiGate-60E v6.4.9'' '''' 2\<rparr>)
   = Inl (TypeError, [GetGeneral])"
  by (simp add: scan_defs silentHost_def rows_def answer_def noAnswer_def generalAnswer_def)

section \<open>The exchanges a walk makes\<close>

lemma log_of_raising [simp]: "log_of (raising e st) = exchanges st"
  by (simp add: log_of_def raising_def)

lemma log_of_Inr [simp]: "log_of (Inr st) = exchanges st"
  by (simp add: log_of_def)

lemma log_of_printErrorStatus [simp]: "log_of (printErrorStatus r st) = exchanges st"
  by (simp add: printErrorStatus_def)

lemma exchanges_selectInterface [simp]: "exchanges (selectInterface n st) = exchanges st"
  by (simp add: selectInterface_def)

lemma log_of_storeField [simp]: "log_of (storeField f st) = exchanges st"
  by (simp add: storeField_def split: sum.splits prod.splits)

lemma log_of_andThen:
  assumes "log_of r = l" and "\<And>s. exchanges s = l \<Longrightarrow> log_of (f s) = l"
  shows "log_of (andThen r f) = l"
  using assms by (cases r) (auto simp: andThen_def log_of_def)

lemma log_of_forEach:
  assumes "\<And>x s. log_of (body x s) = exchanges s"
  shows "log_of (forEach body xs st) = exchanges st"
proof (induction xs arbitrary: st)
  case Nil
  show ?case by simp
next
  case (Cons x xs)
  show ?case
  proof (cases "body x st")
    case (Inl e)
    with assms [of x st] show ?thesis by (simp add: log_of_def)
  next
    case (Inr s)
    with assms [of x st] Cons.IH [of s] show ?thesis by (simp add: log_of_def)
  qed
qed

lemma log_of_physicalVarBind [simp]: "log_of (physicalVarBind vb st) = exchanges st"
  unfolding physicalVarBind_def Let_def
  by (rule log_of_andThen) (auto split: snmp_value.splits)

lemma log_of_physicalRow [simp]: "log_of (physicalRow r st) = exchanges st"
  by (simp add: physicalRow_def log_of_forEach)

lemma log_of_logicalVarBind [simp]: "log_of (logicalVarBind vb st) = exchanges st"
  by (simp add: logicalVarBind_def split: snmp_value.splits)

lemma log_of_appendAddress [simp]: "log_of (appendAddress st) = exchanges st"
  by (simp add: appendAddress_def split: option.splits pyval.splits sum.splits prod.splits)

lemma log_of_logicalRow [simp]: "log_of (logicalRow r st) = exchanges st"
  unfolding logicalRow_def
  by (auto intro!: log_of_andThen simp: log_of_forEach)

declare physicalWalk.simps [simp del] logicalWalk.simps [simp del]

lemma physicalWalk_calls:
  "count_list (log_of (physicalWalk g B c st)) NextPhysical
     \<le> count_list (exchanges st) NextPhysical + nat (B - int c)"
proof (induction g B c st rule: physicalWalk.induct)
  case (1 g B c st)
  show ?case
  proof (cases "int c < B")
    case False
    then show ?thesis by (simp add: physicalWalk.simps [of g B c st])
  next
    case True
    show ?thesis
    proof (cases "g c")
      case None
      with True show ?thesis by (simp add: physicalWalk.simps [of g B c st] sent_def)
    next
      case (Some r)
      show ?thesis
      proof (cases "physicalRow r (sent NextPhysical st)")
        case (Inl e)
        have "log_of (physicalRow r (sent NextPhysical st)) = exchanges (sent NextPhysical st)"
          by simp
        with Inl have "log_of (Inl e :: result) = exchanges st @ [NextPhysical]"
          by (simp add: sent_def)
        with True Some Inl show ?thesis
          by (simp add: physicalWalk.simps [of g B c st])
      next
        case (Inr s)
        have "log_of (physicalRow r (sent NextPhysical st)) = exchanges (sent NextPhysical st)"
          by simp
        with Inr have ex: "exchanges s = exchanges st @ [NextPhysical]"
          by (simp add: sent_def)
        from "1.IH" [OF True Some Inr] ex True Some Inr show ?thesis
          by (simp add: physicalWalk.simps [of g B c st])
      qed
    qed
  qed
qed

lemma physicalWalk_stops:
  "g k = None \<Longrightarrow> c \<le> k \<Longrightarrow>
   count_list (log_of (physicalWalk g B c st)) NextPhysical
     \<le> count_list (exchanges st) NextPhysical + (Suc k - c)"
proof (induction g B c st rule: physicalWalk.induct)
  case (1 g B c st)
  show ?case
  proof (cases "int c < B")
    case False
    then show ?thesis by (simp add: physicalWalk.simps [of g B c st])
  next
    case True
    show ?thesis
    proof (cases "g c")
      case None
      with True "1.prems" show ?thesis by (simp add: physicalWalk.simps [of g B c st] sent_def)
    next
      case (Some r)
      with "1.prems" have ck: "Suc c \<le> k" by (cases "c = k") auto
      show ?thesis
      proof (cases "physicalRow r (sent NextPhysical st)")
        case (Inl e)
        have "log_of (physicalRow r (sent NextPhysical st)) = exchanges (sent NextPhysical st)"
          by simp
        with Inl have "log_of (Inl e :: result) = exchanges st @ [NextPhysical]"
          by (simp add: sent_def)
        with True Some Inl "1.prems" show ?thesis
          by (simp add: physicalWalk.simps [of g B c st])
      next
        case (Inr s)
        have "log_of (physicalRow r (sent NextPhysical st)) = exchanges (sent NextPhysical st)"
          by simp
        with Inr have ex: "exchanges s = exchanges st @ [NextPhysical]"
          by (simp add: sent_def)
        from "1.IH" [OF True Some Inr "1.prems"(1) ck] ex True Some Inr ck show ?thesis
          by (simp add: physicalWalk.simps [of g B c st])
      qed
    qed
  qed
qed

lemma logicalWalk_calls:
  "count_list (log_of (logicalWalk g B c st)) NextLogical
     \<le> count_list (exchanges st) NextLogical + nat (B - int c)"
proof (induction g B c st rule: logicalWalk.induct)
  case (1 g B c st)
  show ?case
  proof (cases "int c < B")
    case False
    then show ?thesis by (simp add: logicalWalk.simps [of g B c st])
  next
    case True
    show ?thesis
    proof (cases "g c")
      case None
      with True show ?thesis by (simp add: logicalWalk.simps [of g B c st] sent_def)
    next
      case (Some r)
      show ?thesis
      proof (cases "logicalRow r (sent NextLogical st)")
        case (Inl e)
        have "log_of (logicalRow r (sent NextLogical st)) = exchanges (sent NextLogical st)"
          by simp
        with Inl have "log_of (Inl e :: result) = exchanges st @ [NextLogical]"
          by (simp add: sent_def)
        with True Some Inl show ?thesis
          by (simp add: logicalWalk.simps [of g B c st])
      next
        case (Inr s)
        have "log_of (logicalRow r (sent NextLogical st)) = exchanges (sent NextLogical st)"
          by simp
        with Inr have ex: "exchanges s = exchanges st @ [NextLogical]"
          by (simp add: sent_def)
        from "1.IH" [OF True Some Inr] ex True Some Inr show ?thesis
          by (simp add: logicalWalk.simps [of g B c st])
      qed
    qed
  qed
qed

lemma logicalWalk_stops:
  "g k = None \<Longrightarrow> c \<le> k \<Longrightarrow>
   count_list (log_of (logicalWalk g B c st)) NextLogical
     \<le> count_list (exchanges st) NextLogical + (Suc k - c)"
proof (induction g B c st rule: logicalWalk.induct)
  case (1 g B c st)
  show ?case
  proof (cases "int c < B")
    case False
    then show ?thesis by (simp add: logicalWalk.simps [of g B c st])
  next
    case True
    show ?thesis
    proof (cases "g c")
      case None
      with True "1.prems" show ?thesis by (simp add: logicalWalk.simps [of g B c st] sent_def)
    next
      case (Some r)
      with "1.prems" have ck: "Suc c \<le> k" by (cases "c = k") auto
      show ?thesis
      proof (cases "logicalRow r (sent NextLogical st)")
        case (Inl e)
        have "log_of (logicalRow r (sent NextLogical st)) = exchanges (sent NextLogical st)"
          by simp
        with Inl have "log_of (Inl e :: result) = exchanges st @ [NextLogical]"
          by (simp add: sent_def)
        with True Some Inl "1.prems" show ?thesis
          by (simp add: logicalWalk.simps [of g B c st])
      next
        case (Inr s)
        have "log_of (logicalRow r (sent NextLogical st)) = exchanges (sent NextLogical st)"
          by simp
        with Inr have ex: "exchanges s = exchanges st @ [NextLogical]"
          by (simp add: sent_def)
        from "1.IH" [OF True Some Inr "1.prems"(1) ck] ex True Some Inr ck show ?thesis
          by (simp add: logicalWalk.simps [of g B c st])
      qed
    qed
  qed
qed

text \<open>
  C10. A walk with budget \<open>B\<close> asks the generator at most \<open>B\<close> times, whatever the
  host answers and whether the walk returns or raises; both walks are total functions,
  so they always end. The call on which \<open>next\<close> raises \<open>StopIteration\<close> (the end of the
  table) is the last one: exhausted at call \<open>k\<close>, the generator is asked at most
  \<open>k + 1\<close> times. The library ends a generator after it has returned an error
  indication, so a transport error at call \<open>k\<close> ends the walk with call \<open>k + 1\<close>.
\<close>

theorem walk_within_budget:
  "count_list (log_of (physicalWalk g B 0 st)) NextPhysical
     \<le> count_list (exchanges st) NextPhysical + nat B
   \<and> count_list (log_of (logicalWalk g B 0 st)) NextLogical
     \<le> count_list (exchanges st) NextLogical + nat B
   \<and> (g k = None \<longrightarrow>
        count_list (log_of (physicalWalk g B 0 st)) NextPhysical
          \<le> count_list (exchanges st) NextPhysical + Suc k
        \<and> count_list (log_of (logicalWalk g B 0 st)) NextLogical
          \<le> count_list (exchanges st) NextLogical + Suc k)
   \<and> ((\<exists>r. g k = Some r \<and> errorIndication r \<noteq> None) \<and> g (Suc k) = None \<longrightarrow>
        count_list (log_of (physicalWalk g B 0 st)) NextPhysical
          \<le> count_list (exchanges st) NextPhysical + Suc (Suc k)
        \<and> count_list (log_of (logicalWalk g B 0 st)) NextLogical
          \<le> count_list (exchanges st) NextLogical + Suc (Suc k))"
proof (intro conjI impI)
  show "count_list (log_of (physicalWalk g B 0 st)) NextPhysical
     \<le> count_list (exchanges st) NextPhysical + nat B"
    using physicalWalk_calls [of g B 0 st] by simp
  show "count_list (log_of (logicalWalk g B 0 st)) NextLogical
     \<le> count_list (exchanges st) NextLogical + nat B"
    using logicalWalk_calls [of g B 0 st] by simp
next
  assume "g k = None"
  then show "count_list (log_of (physicalWalk g B 0 st)) NextPhysical
          \<le> count_list (exchanges st) NextPhysical + Suc k"
    and "count_list (log_of (logicalWalk g B 0 st)) NextLogical
          \<le> count_list (exchanges st) NextLogical + Suc k"
    using physicalWalk_stops [of g k 0 B st] logicalWalk_stops [of g k 0 B st] by simp_all
next
  assume "(\<exists>r. g k = Some r \<and> errorIndication r \<noteq> None) \<and> g (Suc k) = None"
  then have "g (Suc k) = None" by simp
  then show "count_list (log_of (physicalWalk g B 0 st)) NextPhysical
          \<le> count_list (exchanges st) NextPhysical + Suc (Suc k)"
    and "count_list (log_of (logicalWalk g B 0 st)) NextLogical
          \<le> count_list (exchanges st) NextLogical + Suc (Suc k)"
    using physicalWalk_stops [of g "Suc k" 0 B st] logicalWalk_stops [of g "Suc k" 0 B st]
    by simp_all
qed

theorem walk_within_budget_witness:
  "rows [noAnswer] 1 = None
   \<and> (\<exists>r. rows [noAnswer] 0 = Some r \<and> errorIndication r \<noteq> None)
   \<and> count_list (log_of (physicalWalk (rows [noAnswer]) 256 0
         (initialState True dataDictTemplate 256))) NextPhysical \<le> 2
   \<and> count_list (log_of (logicalWalk (rows [noAnswer]) 256 0
         (initialState True dataDictTemplate 256))) NextLogical \<le> 2"
  using walk_within_budget [of "rows [noAnswer]" 256 "initialState True dataDictTemplate 256" 1]
    walk_within_budget [of "rows [noAnswer]" 256 "initialState True dataDictTemplate 256" 0]
  by (simp add: rows_def noAnswer_def initialState_def)

section \<open>The MAC address text\<close>

lemma replace_single:
  "replace [d] [e] s = map (\<lambda>c. if c = d then e else c) s"
  by (induction s) auto

lemma map_join: "map f (join sep xs) = join (map f sep) (map (map f) xs)"
  by (induction sep xs rule: join.induct) auto

lemma hex_digits_lowered:
  "list_all
     (\<lambda>n. lower_char (if ''0123456789ABCDEF'' ! n = CHR ''-'' then CHR '':''
                        else ''0123456789ABCDEF'' ! n)
          = ''0123456789abcdef'' ! n)
     [0..<16]"
  by code_simp

lemma lower_hex_digit:
  assumes "n < 16"
  shows "lower_char (if ''0123456789ABCDEF'' ! n = CHR ''-'' then CHR '':''
                     else ''0123456789ABCDEF'' ! n)
         = ''0123456789abcdef'' ! n"
  using hex_digits_lowered assms by (simp add: list_all_iff)

lemma lower_hex2:
  "map (\<lambda>c. lower_char (if c = CHR ''-'' then CHR '':'' else c)) (hex2 b)
   = [''0123456789abcdef'' ! (b div 16 mod 16), ''0123456789abcdef'' ! (b mod 16)]"
  by (simp add: hex2_def lower_hex_digit)

lemma mac_text_of_six:
  assumes "length bs = 6"
  shows "Inr (lower (replace ''-'' '':'' (join ''-'' (map hex2 bs)))) = (Inr (lowercaseColonHex bs) :: error + string)"
proof -
  have "lower (replace ''-'' '':'' (join ''-'' (map hex2 bs)))
        = map (\<lambda>c. lower_char (if c = CHR ''-'' then CHR '':'' else c)) (join ''-'' (map hex2 bs))"
    by (simp add: lower_def replace_single)
  also have "\<dots> = join '':'' (map (map (\<lambda>c. lower_char (if c = CHR ''-'' then CHR '':'' else c))) (map hex2 bs))"
    by (simp add: map_join lower_char_def)
  also have "\<dots> = lowercaseColonHex bs"
    by (simp add: lowercaseColonHex_def lower_hex2 comp_def)
  finally show ?thesis by simp
qed

lemma macText_six:
  "length s = 6 \<Longrightarrow> macText (OctetString s) = Inr (lowercaseColonHex (map of_char s))"
  using mac_text_of_six [of "map of_char s"] by (simp add: macText_def str_MAC_def)

text \<open>
  C9. When the first answer of the MAC walk holds an octet string of six octets, the
  stored \<open>MAC Address\<close> is those octets as lowercase hexadecimal pairs separated by
  colons; the octets AA BB CC 00 11 22 give \<open>aa:bb:cc:00:11:22\<close>.
\<close>

theorem mac_address_rendering:
  "(macAddresses dev 0 = Some r \<and> succeeded r \<and> varBinds r = [(name, OctetString s)] \<and> length s = 6
      \<longrightarrow> (\<exists>st'. macAddressStage dev st = Inr st' \<and>
             map_of (snmpDataDict st') ''MAC Address''
               = Some (PStr (lowercaseColonHex (map of_char s)))))
   \<and> macText (OctetString [CHR 0xAA, CHR 0xBB, CHR 0xCC, CHR 0x00, CHR 0x11, CHR 0x22])
       = Inr ''aa:bb:cc:00:11:22''"
proof (intro conjI impI)
  assume h: "macAddresses dev 0 = Some r \<and> succeeded r \<and> varBinds r = [(name, OctetString s)] \<and> length s = 6"
  then have "macText (OctetString s) = Inr (lowercaseColonHex (map of_char s))"
    by (simp add: macText_six)
  with h show "\<exists>st'. macAddressStage dev st = Inr st' \<and>
             map_of (snmpDataDict st') ''MAC Address''
               = Some (PStr (lowercaseColonHex (map of_char s)))"
    by (simp add: macAddressStage_def succeeded_def macVarBind_def andThen_def update_conv' Let_def)
next
  show "macText (OctetString [CHR 0xAA, CHR 0xBB, CHR 0xCC, CHR 0x00, CHR 0x11, CHR 0x22])
       = Inr ''aa:bb:cc:00:11:22''"
    by (simp add: macText_def str_MAC_def hex2_def lower_def lower_char_def)
qed

theorem mac_address_rendering_witness:
  "macAddresses (silentHost\<lparr>macAddresses :=
       rows [answer [(''IF-MIB::ifPhysAddress.1'',
         OctetString [CHR 0xAA, CHR 0xBB, CHR 0xCC, CHR 0x00, CHR 0x11, CHR 0x22])]]\<rparr>) 0
     = Some (answer [(''IF-MIB::ifPhysAddress.1'',
         OctetString [CHR 0xAA, CHR 0xBB, CHR 0xCC, CHR 0x00, CHR 0x11, CHR 0x22])])
   \<and> (\<exists>st'. macAddressStage (silentHost\<lparr>macAddresses :=
       rows [answer [(''IF-MIB::ifPhysAddress.1'',
         OctetString [CHR 0xAA, CHR 0xBB, CHR 0xCC, CHR 0x00, CHR 0x11, CHR 0x22])]]\<rparr>)
          (initialState True dataDictTemplate 256) = Inr st' \<and>
        map_of (snmpDataDict st') ''MAC Address'' = Some (PStr ''aa:bb:cc:00:11:22''))"
  using mac_address_rendering [of
      "silentHost\<lparr>macAddresses :=
       rows [answer [(''IF-MIB::ifPhysAddress.1'',
         OctetString [CHR 0xAA, CHR 0xBB, CHR 0xCC, CHR 0x00, CHR 0x11, CHR 0x22])]]\<rparr>"
      "answer [(''IF-MIB::ifPhysAddress.1'',
         OctetString [CHR 0xAA, CHR 0xBB, CHR 0xCC, CHR 0x00, CHR 0x11, CHR 0x22])]"
      "''IF-MIB::ifPhysAddress.1''"
      "[CHR 0xAA, CHR 0xBB, CHR 0xCC, CHR 0x00, CHR 0x11, CHR 0x22]"
      "initialState True dataDictTemplate 256"]
  by (simp add: rows_def answer_def succeeded_def lowercaseColonHex_def)

section \<open>Addresses in CIDR notation\<close>

lemma masks_of_all_prefixes:
  "list_all
     (\<lambda>p. is_netmask (maskOfPrefix p) \<and> network_prefixlen (Some (maskOfPrefix p)) = Inr p)
     [0..<33]"
  by code_simp

lemma is_netmask_maskOfPrefix: "p \<le> 32 \<Longrightarrow> is_netmask (maskOfPrefix p)"
  using masks_of_all_prefixes by (simp add: list_all_iff)

lemma prefixlen_maskOfPrefix: "p \<le> 32 \<Longrightarrow> network_prefixlen (Some (maskOfPrefix p)) = Inr p"
  using masks_of_all_prefixes by (simp add: list_all_iff)

text \<open>
  C4, as amended. A row of the logical walk that carries an index, an address whose bit
  pattern is not a netmask's, and the netmask of \<open>p\<close> leading one bits appends exactly
  one string, the dotted address, a slash and \<open>p\<close>, to the list \<open>IP Addresses\<close>, and
  the entry of that index holds the address and the mask.
\<close>

theorem cidr_appended:
  assumes "succeeded r"
    and "varBinds r = [(n1, Integer32 i), (n2, IpAddress a), (n3, IpAddress (maskOfPrefix p))]"
    and "\<not> is_netmask a" and "p \<le> 32"
    and "map_of (snmpDataDict st) ''IP Addresses'' = Some (PList l)"
  shows "\<exists>st'. logicalRow r st = Inr st' \<and>
     map_of (snmpDataDict st') ''IP Addresses''
       = Some (PList (l @ [str_IPv4Address a @ ''/'' @ str_int (int p)])) \<and>
     (\<exists>e. map_of (interfaceDict st') i = Some e \<and> IP_Address e = Some a \<and>
          Netmask e = Some (maskOfPrefix p))"
proof -
  note m = is_netmask_maskOfPrefix [OF assms(4)] prefixlen_maskOfPrefix [OF assms(4)]
  show ?thesis
  proof (cases "map_of (interfaceDict st) i")
    case None
    with assms m show ?thesis
      by (simp add: logicalRow_def succeeded_def logicalVarBind_def selectInterface_def
          storeField_def currentInterface_def appendAddress_def andThen_def update_conv'
          str_address_def)
  next
    case (Some e)
    with assms m show ?thesis
      by (simp add: logicalRow_def succeeded_def logicalVarBind_def selectInterface_def
          storeField_def currentInterface_def appendAddress_def andThen_def update_conv'
          str_address_def)
  qed
qed

theorem cidr_appended_witness:
  "succeeded (logicalAnswer 1 0xC000020A (IpAddress (maskOfPrefix 24)))
   \<and> \<not> is_netmask 0xC000020A \<and> (24::nat) \<le> 32 \<and> maskOfPrefix 24 = 0xFFFFFF00
   \<and> (\<exists>st'. logicalRow (logicalAnswer 1 0xC000020A (IpAddress (maskOfPrefix 24)))
              (initialState True dataDictTemplate 256) = Inr st' \<and>
        map_of (snmpDataDict st') ''IP Addresses'' = Some (PList [''192.0.2.10/24'']))"
  using cidr_appended [of "logicalAnswer 1 0xC000020A (IpAddress (maskOfPrefix 24))"
      "''IP-MIB::ipAdEntIfIndex''" 1 "''IP-MIB::ipAdEntAddr''" "0xC000020A"
      "''IP-MIB::ipAdEntNetMask''" 24 "initialState True dataDictTemplate 256" "[]"]
  by (auto simp: logicalAnswer_def answer_def succeeded_def is_netmask_def maskOfPrefix_def
      initialState_def dataDictTemplate_def str_IPv4Address_def octets_def str_int_def)

text \<open>
  C4 as stated fails twice. With no netmask in the row, line 361 does not default to
  \<open>/0\<close>: it raises \<open>NetmaskValueError\<close>. And an address whose own bit pattern is a
  netmask's (128.0.0.0) is filed as the netmask, so that with the mask 255.0.0.0 the
  string appended is \<open>None/8\<close>.
\<close>

theorem absent_mask_is_no_default:
  "logicalRow (logicalAnswer 1 0xC000020A Null) (initialState True dataDictTemplate 256)
     = Inl (NetmaskValueError, [])
   \<and> snmpAudit True dataDictTemplate '';'' 256 256
       (silentHost\<lparr>logicalData := rows [logicalAnswer 1 0x80000000 (IpAddress 0xFF000000)]\<rparr>)
     = Inr (AList.update ''SNMP'' (PBool True)
             (AList.update ''IP Addresses'' (PList [''None/8''])
               (AList.update ''PING'' (PBool True) dataDictTemplate)),
            [(1, interfaceDictTemplate\<lparr>Index := Some 1, Netmask := Some 0xFF000000\<rparr>)])"
  by (simp add: scan_defs physicalWalk.simps logicalWalk.simps silentHost_def rows_def answer_def noAnswer_def
      logicalAnswer_def)

section \<open>The interface dictionary through both walks\<close>

subsection \<open>Invariant rules\<close>







subsection \<open>Steps on the interface dictionary\<close>












subsection \<open>One binding of a row\<close>




subsection \<open>Whole walks\<close>









subsection \<open>An observed index becomes a key\<close>











subsection \<open>The steps around the walks\<close>











section \<open>The behaviour around the defects\<close>

subsection \<open>The positional fill\<close>

text \<open>
  With at least one value and at most ten, the general step does what C6 says: the
  values fill the first keys in order, an empty value and every key past the last value
  stay \<open>None\<close>, and the flag is set.
\<close>

lemma fillValues_fills:
  assumes "i < length vals" and "distinct keys"
  shows "\<exists>dd'. fillValues keys vals i dd = Inr dd'
     \<and> (\<forall>j<length keys. map_of dd' (keys ! j)
            = (if i + j < length vals \<and> vals ! (i + j) \<noteq> []
               then Some (PStr (vals ! (i + j))) else map_of dd (keys ! j)))
     \<and> (\<forall>k. k \<notin> set keys \<longrightarrow> map_of dd' k = map_of dd k)"
  using assms
proof (induction keys arbitrary: i dd)
  case Nil
  then show ?case by simp
next
  case (Cons key keys)
  define dd1 where "dd1 = (if vals ! i \<noteq> [] then AList.update key (PStr (vals ! i)) dd else dd)"
  have head: "map_of dd1 key = (if vals ! i \<noteq> [] then Some (PStr (vals ! i)) else map_of dd key)"
    by (simp add: dd1_def update_conv')
  have other: "map_of dd1 k = map_of dd k" if "k \<noteq> key" for k
    using that by (simp add: dd1_def update_conv')
  show ?case
  proof (cases "Suc i < length vals")
    case False
    with Cons.prems have run: "fillValues (key # keys) vals i dd = Inr dd1"
      by (simp add: dd1_def Let_def)
    have "map_of dd1 ((key # keys) ! j)
            = (if i + j < length vals \<and> vals ! (i + j) \<noteq> []
               then Some (PStr (vals ! (i + j))) else map_of dd ((key # keys) ! j))"
      if "j < length (key # keys)" for j
    proof (cases j)
      case 0
      with head Cons.prems show ?thesis by simp
    next
      case (Suc j')
      with that Cons.prems(2) have "keys ! j' \<noteq> key" by auto
      with Suc False other show ?thesis by simp
    qed
    with run other show ?thesis by auto
  next
    case True
    from Cons.prems(2) have d: "distinct keys" and notin: "key \<notin> set keys" by simp_all
    from Cons.IH [OF True d, of dd1] obtain dd' where
      rest: "fillValues keys vals (Suc i) dd1 = Inr dd'"
      and filled: "\<forall>j<length keys. map_of dd' (keys ! j)
            = (if Suc i + j < length vals \<and> vals ! (Suc i + j) \<noteq> []
               then Some (PStr (vals ! (Suc i + j))) else map_of dd1 (keys ! j))"
      and frame: "\<forall>k. k \<notin> set keys \<longrightarrow> map_of dd' k = map_of dd1 k"
      by blast
    from True Cons.prems rest have run: "fillValues (key # keys) vals i dd = Inr dd'"
      by (simp add: dd1_def Let_def)
    have "map_of dd' ((key # keys) ! j)
            = (if i + j < length vals \<and> vals ! (i + j) \<noteq> []
               then Some (PStr (vals ! (i + j))) else map_of dd ((key # keys) ! j))"
      if "j < length (key # keys)" for j
    proof (cases j)
      case 0
      with frame notin head Cons.prems show ?thesis by simp
    next
      case (Suc j')
      with that notin have "keys ! j' \<noteq> key" by auto
      with Suc that filled other show ?thesis by simp
    qed
    moreover have "map_of dd' k = map_of dd k" if "k \<notin> set (key # keys)" for k
      using that frame other by simp
    ultimately show ?thesis using run by blast
  qed
qed

lemma partial_response_fills:
  assumes "succeeded (generalInfo dev)" and "varBinds (generalInfo dev) \<noteq> []"
    and "length (varBinds (generalInfo dev)) \<le> 10"
  shows "\<exists>st. generalInfoStage d b dev (initialState ping dataDictTemplate B) = Inr st
     \<and> map_of (snmpDataDict st) ''SNMP'' = Some (PBool True)
     \<and> (\<forall>j<10. map_of (snmpDataDict st) (map fst dataDictTemplate ! j)
           = (if j < length (varBinds (generalInfo dev))
                 \<and> sanitize d (snd (varBinds (generalInfo dev) ! j)) \<noteq> []
              then Some (PStr (sanitize d (snd (varBinds (generalInfo dev) ! j))))
              else Some PNone))"
proof -
  define dd where "dd = snmpDataDict (sent GetGeneral (initialState ping dataDictTemplate B))"
  define vals where "vals = map (\<lambda>vb. sanitize d (snd vb)) (varBinds (generalInfo dev))"
  define keys where "keys = map fst dd"
  have keys: "keys = map fst dataDictTemplate"
    by (simp add: keys_def dd_def sent_def initialState_def dataDictTemplate_def)
  have dk: "distinct keys" by (simp add: keys dataDictTemplate_def)
  from assms(2) have "0 < length vals" by (simp add: vals_def)
  from fillValues_fills [OF this dk, of dd] obtain dd' where
    run: "fillValues keys vals 0 dd = Inr dd'"
    and filled: "\<forall>j<length keys. map_of dd' (keys ! j)
            = (if j < length vals \<and> vals ! j \<noteq> []
               then Some (PStr (vals ! j)) else map_of dd (keys ! j))"
    and frame: "\<forall>k. k \<notin> set keys \<longrightarrow> map_of dd' k = map_of dd k"
    by auto
  have before: "map_of dd (keys ! j) = Some PNone" if "j < 10" for j
  proof -
    have "list_all (\<lambda>j. map_of dd (keys ! j) = Some PNone) [0..<10]"
      unfolding keys by (simp add: dd_def sent_def initialState_def dataDictTemplate_def upt_rec)
    with that show ?thesis by (simp add: list_all_iff)
  qed
  have count: "map_of dd' ''Interfaces Count'' \<noteq> None"
  proof -
    have "keys ! 9 = ''Interfaces Count''" by (simp add: keys dataDictTemplate_def)
    moreover have "(9::nat) < length keys" by (simp add: keys dataDictTemplate_def)
    ultimately show ?thesis using filled before [of 9] by (auto split: if_splits)
  qed
  then obtain c where c: "map_of dd' ''Interfaces Count'' = Some c" by auto
  let ?st = "(sent GetGeneral (initialState ping dataDictTemplate B))
      \<lparr>snmpDataDict := AList.update ''SNMP'' (PBool True) dd',
       snmpIterMaxCount := iterationLimit c b\<rparr>"
  from assms(1) run c
  have stage: "generalInfoStage d b dev (initialState ping dataDictTemplate B) = Inr ?st"
    by (simp add: generalInfoStage_def Let_def succeeded_def dd_def [symmetric]
        keys_def [symmetric] vals_def [symmetric])
  have flag: "map_of (snmpDataDict ?st) ''SNMP'' = Some (PBool True)"
    by (simp add: update_conv')
  have fields: "map_of (snmpDataDict ?st) (map fst dataDictTemplate ! j)
           = (if j < length (varBinds (generalInfo dev))
                 \<and> sanitize d (snd (varBinds (generalInfo dev) ! j)) \<noteq> []
              then Some (PStr (sanitize d (snd (varBinds (generalInfo dev) ! j))))
              else Some PNone)" if "j < 10" for j
  proof -
    have "list_all (\<lambda>j. keys ! j \<noteq> ''SNMP'') [0..<10]"
      unfolding keys by (simp add: dataDictTemplate_def upt_rec)
    with that have ne: "keys ! j \<noteq> ''SNMP''" by (simp add: list_all_iff)
    from that have "j < length keys" by (simp add: keys dataDictTemplate_def)
    with filled before [OF that]
    have "map_of dd' (keys ! j)
          = (if j < length vals \<and> vals ! j \<noteq> [] then Some (PStr (vals ! j)) else Some PNone)"
      by simp
    moreover have "length vals = length (varBinds (generalInfo dev))"
      by (simp add: vals_def)
    moreover have "vals ! j = sanitize d (snd (varBinds (generalInfo dev) ! j))"
      if "j < length (varBinds (generalInfo dev))"
      using that by (simp add: vals_def)
    ultimately show ?thesis
      using ne by (auto simp: update_conv' keys [symmetric])
  qed
  from stage flag fields show ?thesis by blast
qed

subsection \<open>The budget after the general step\<close>

text \<open>
  Whatever a successful general response holds, the walks run with
  \<open>scriptArgs.snmpIterMaxCount\<close>: the stored count is a string or \<open>None\<close>, never an
  integer.
\<close>

lemma fillValues_limit:
  assumes "fillValues keys vals i dd = Inr dd'"
    and "map_of dd k = Some v" and "iterationLimit v b = b"
  shows "\<exists>v'. map_of dd' k = Some v' \<and> iterationLimit v' b = b"
  using assms
proof (induction keys arbitrary: i dd v)
  case Nil
  then show ?case by simp
next
  case (Cons key keys)
  define dd1 where "dd1 = (if vals ! i \<noteq> [] then AList.update key (PStr (vals ! i)) dd else dd)"
  from Cons.prems(2,3)
  have "\<exists>v1. map_of dd1 k = Some v1 \<and> iterationLimit v1 b = b"
    by (simp add: dd1_def update_conv')
  then obtain v1 where v1: "map_of dd1 k = Some v1" "iterationLimit v1 b = b"
    by blast
  from Cons.prems(1) have bound: "i < length vals" by (auto split: if_splits)
  show ?case
  proof (cases "Suc i < length vals")
    case True
    with Cons.prems(1) bound have "fillValues keys vals (Suc i) dd1 = Inr dd'"
      by (simp add: dd1_def Let_def)
    from Cons.IH [OF this v1] show ?thesis .
  next
    case False
    with Cons.prems(1) bound have "dd' = dd1" by (simp add: dd1_def Let_def)
    with v1 show ?thesis by simp
  qed
qed

lemma budget_is_the_configured_one:
  assumes "succeeded (generalInfo dev)"
    and "generalInfoStage d b dev (initialState ping dataDictTemplate B) = Inr st"
  shows "snmpIterMaxCount st = b"
proof -
  define dd where "dd = snmpDataDict (sent GetGeneral (initialState ping dataDictTemplate B))"
  have start: "map_of dd ''Interfaces Count'' = Some PNone"
    by (simp add: dd_def sent_def initialState_def dataDictTemplate_def)
  from assms obtain dd' c where
    run: "fillValues (map fst dd) (map (\<lambda>vb. sanitize d (snd vb)) (varBinds (generalInfo dev))) 0 dd
            = Inr dd'"
    and c: "map_of dd' ''Interfaces Count'' = Some c"
    and st: "snmpIterMaxCount st = iterationLimit c b"
    by (auto simp: generalInfoStage_def Let_def succeeded_def dd_def raising_def
        split: sum.splits option.splits)
  from fillValues_limit [OF run start, of b] c have "iterationLimit c b = b" by simp
  with st show ?thesis by simp
qed

subsection \<open>What the general fetch removes from a value\<close>

text \<open>
  With a delimiter of one character, a value of the general fetch holds no line feed and
  no carriage return, and no delimiter unless the delimiter is the space itself.
\<close>

lemma sanitize_clean:
  "CHR 0x0A \<notin> set (sanitize [d] v) \<and> CHR 0x0D \<notin> set (sanitize [d] v)
   \<and> (d = CHR '' '' \<or> d \<notin> set (sanitize [d] v))"
  by (auto simp: sanitize_def replace_single)

subsection \<open>When the vendor fetch is made\<close>

text \<open>
  When comment and firmware are both strings, the vendor step makes exactly one request
  if the manufacturer is Fortinet and one of the two contains \<open>FortiGate\<close>, and none
  otherwise.
\<close>

lemma vendor_fetch_made:
  assumes "map_of (snmpDataDict st) ''Manufacturer'' = Some m"
    and "map_of (snmpDataDict st) ''Comment'' = Some (PStr c)"
    and "map_of (snmpDataDict st) ''FW'' = Some (PStr f)"
  shows "log_of (vendorInfoStage dev st)
     = (if m = PStr ''Fortinet'' \<and> (contains ''FortiGate'' c \<or> contains ''FortiGate'' f)
        then exchanges st @ [GetVendor] else exchanges st)"
proof -
  have "isFortiGate (snmpDataDict st)
      = Inr (m = PStr ''Fortinet'' \<and> (contains ''FortiGate'' c \<or> contains ''FortiGate'' f))"
    using assms by (auto simp: isFortiGate_def split: bool.splits)
  then show ?thesis
    by (auto simp: vendorInfoStage_def Let_def sent_def log_of_def raising_def
        printErrorStatus_def split: sum.splits bool.splits)
qed

end
